theory Spec2Isabelle
  imports Complex_Main
begin

section \<open>Data model (backend/app/schemas/prediction.py)\<close>

text \<open>
  The pydantic models become records. Python's \<open>int\<close> is \<open>int\<close>, \<open>str\<close> is
  \<open>string\<close> (a non-ASCII code point is held as its UTF-8 bytes) and \<open>float\<close> is
  idealised as \<open>real\<close>: rounding, infinities and NaN of IEEE doubles are outside this
  model, so every equation below is an equation of exact arithmetic.
\<close>

record ClinicalData =
  age :: int
  gender :: string
  bmi :: real
  hba1c :: real
  blood_glucose :: real
  blood_pressure_systolic :: int
  blood_pressure_diastolic :: int
  diabetes_duration :: int
  creatinine :: real
  cholesterol_total :: real
  cholesterol_ldl :: real
  cholesterol_hdl :: real
  triglycerides :: real
  has_hypertension :: bool
  smoking_status :: string
  family_history :: bool

text \<open>
  The only constraint the schema puts on a field: \<open>age: int = Field(..., ge=0, le=120)\<close>.
\<close>

definition valid_ClinicalData :: "ClinicalData \<Rightarrow> bool" where
  "valid_ClinicalData cd \<longleftrightarrow> 0 \<le> age cd \<and> age cd \<le> 120"

text \<open>The field \<open>value\<close> of \<open>RiskScore\<close> is written \<open>value_rs\<close>.\<close>

record RiskScore =
  value_rs :: real
  category :: string
  confidence :: real

record FeatureContribution =
  feature_name :: string
  contribution :: real
  normalized_contribution :: real

record ExplanationData =
  image_contribution :: real
  clinical_contribution :: real
  top_image_features :: "string list"
  top_clinical_features :: "FeatureContribution list"
  natural_language_explanation :: string

text \<open>
  \<open>dr_class_probabilities\<close> is a \<open>Dict[str, float]\<close> built by \<open>dict(zip(...))\<close>; it is
  kept as the association list in insertion order.
\<close>

record PredictionResponse =
  prediction_id :: string
  timestamp :: real
  dr_stage :: string
  dr_stage_probability :: real
  dr_class_probabilities :: "(string \<times> real) list"
  overall_risk_score :: RiskScore
  nephropathy_risk :: RiskScore
  neuropathy_risk :: RiskScore
  cardiovascular_risk :: RiskScore
  explanation :: ExplanationData
  recommendations :: "string list"
  follow_up_months :: int
  model_version :: string
  processing_time_ms :: real

section \<open>Exceptions and the environment\<close>

text \<open>
  The exceptions the operations used by \<open>demo_analyze\<close> can raise, with the text
  \<open>str(e)\<close> gives for each, and the \<open>HTTPException\<close> raised by the handler.
\<close>

datatype exception = OverflowError | ZeroDivisionError | ValueError | IndexError

fun str_exception :: "exception \<Rightarrow> string" where
  "str_exception OverflowError = ''int too large to convert to float''"
| "str_exception ZeroDivisionError = ''float division by zero''"
| "str_exception ValueError = ''attempt to get argmax of an empty sequence''"
| "str_exception IndexError = ''list index out of range''"

record HTTPException =
  status_code :: int
  detail :: string

text \<open>
  What \<open>demo_analyze\<close> reads from outside: the two readings of \<open>time.time()\<close>, the
  hexadecimal text of \<open>uuid.uuid4()\<close>, \<open>datetime.now()\<close>, and the formatting of a
  float and of an int by an f-string.
\<close>

record environment =
  time_start :: real
  uuid4_hex :: string
  datetime_now :: real
  time_end :: real
  format_float :: "real \<Rightarrow> string"
  format_int :: "int \<Rightarrow> string"

section \<open>Operations of Python and numpy used by the endpoint\<close>

text \<open>
  An \<open>int\<close> operand of a float division is first converted to a float. The conversion
  rounds to the nearest double and raises \<open>OverflowError\<close> when the result would exceed
  the largest one, that is from \<open>2^1024 - 2^970\<close> on in absolute value. Below that bound
  the converted value is idealised as the integer itself.
\<close>

definition float_representable :: "int \<Rightarrow> bool" where
  "float_representable n \<longleftrightarrow> \<bar>n\<bar> < 2 ^ 1024 - 2 ^ 970"

definition float_of_int :: "int \<Rightarrow> exception + real" where
  "float_of_int n = (if float_representable n then Inr (real_of_int n) else Inl OverflowError)"

text \<open>Float division \<open>p / total\<close> raises on a zero divisor.\<close>

definition float_div :: "real \<Rightarrow> real \<Rightarrow> exception + real" where
  "float_div p t = (if t = 0 then Inl ZeroDivisionError else Inr (p / t))"

text \<open>The comprehension \<open>[p / total for p in dr_probs]\<close>.\<close>

fun div_each :: "real list \<Rightarrow> real \<Rightarrow> exception + real list" where
  "div_each [] t = Inr []"
| "div_each (p # ps) t =
     (case float_div p t of
        Inl e \<Rightarrow> Inl e
      | Inr q \<Rightarrow> (case div_each ps t of Inl e \<Rightarrow> Inl e | Inr qs \<Rightarrow> Inr (q # qs)))"

text \<open>The builtin \<open>sum\<close>: a left fold from 0.\<close>

definition sum_py :: "real list \<Rightarrow> real" where
  "sum_py xs = foldl (+) 0 xs"

text \<open>
  \<open>numpy.argmax\<close> on a one-dimensional sequence: the index of the first occurrence of
  the maximum (a later element replaces the best one only when strictly greater), and
  \<open>ValueError\<close> on an empty sequence.
\<close>

fun argmax_scan :: "real list \<Rightarrow> nat \<Rightarrow> nat \<Rightarrow> real \<Rightarrow> nat" where
  "argmax_scan [] i best_i best = best_i"
| "argmax_scan (x # xs) i best_i best =
     (if best < x then argmax_scan xs (Suc i) i x
      else argmax_scan xs (Suc i) best_i best)"

definition argmax :: "real list \<Rightarrow> exception + nat" where
  "argmax xs = (case xs of [] \<Rightarrow> Inl ValueError | x # rest \<Rightarrow> Inr (argmax_scan rest 1 0 x))"

text \<open>Indexing a list with a non-negative index.\<close>

definition getitem :: "'a list \<Rightarrow> nat \<Rightarrow> exception + 'a" where
  "getitem xs i = (if i < length xs then Inr (xs ! i) else Inl IndexError)"

section \<open>The endpoint (backend/app/api/endpoints/prediction.py)\<close>

text \<open>
  The value line 18 gives \<open>risk_factor\<close> when the conversion of \<open>diabetes_duration\<close>
  succeeds.
\<close>

definition risk_factor :: "ClinicalData \<Rightarrow> real" where
  "risk_factor cd =
     min 1 ((hba1c cd / 10 + real_of_int (diabetes_duration cd) / 20) / 2)"

definition dr_classes :: "string list" where
  "dr_classes = [''No DR'', ''Mild NPDR'', ''Moderate NPDR'', ''Severe NPDR'', ''PDR'']"

text \<open>The unnormalised weights, the first value of the variable \<open>dr_probs\<close>.\<close>

definition dr_probs_raw :: "real \<Rightarrow> real list" where
  "dr_probs_raw rf =
     [max 0 (0.8 - rf),
      0.1,
      0.05 + rf * 0.2,
      0.05 + rf * 0.3,
      rf * 0.2]"

text \<open>
  The seven messages. Each starts with an emoji, given here by its UTF-8 bytes, followed
  by a space and the ASCII text.
\<close>

definition msg_glycemic :: string where
  "msg_glycemic = [CHR 0xF0, CHR 0x9F, CHR 0x8E, CHR 0xAF]
     @ '' Improve glycemic control - Target HbA1c < 7%''"

definition msg_blood_pressure :: string where
  "msg_blood_pressure = [CHR 0xF0, CHR 0x9F, CHR 0x92, CHR 0x8A]
     @ '' Monitor and manage blood pressure''"

definition msg_weight :: string where
  "msg_weight = [CHR 0xF0, CHR 0x9F, CHR 0x8F, CHR 0x83]
     @ '' Weight management recommended''"

definition msg_smoking :: string where
  "msg_smoking = [CHR 0xF0, CHR 0x9F, CHR 0x9A, CHR 0xAD]
     @ '' Smoking cessation strongly recommended''"

definition msg_urgent :: string where
  "msg_urgent = [CHR 0xF0, CHR 0x9F, CHR 0x91, CHR 0xA8, CHR 0xE2, CHR 0x80, CHR 0x8D,
                 CHR 0xE2, CHR 0x9A, CHR 0x95, CHR 0xEF, CHR 0xB8, CHR 0x8F]
     @ '' Urgent ophthalmologist consultation required''"

definition msg_follow_up :: string where
  "msg_follow_up = [CHR 0xF0, CHR 0x9F, CHR 0x93, CHR 0x85]
     @ '' Schedule follow-up with eye specialist''"

definition msg_continue :: string where
  "msg_continue = [CHR 0xE2, CHR 0x9C, CHR 0x85]
     @ '' Continue current management plan''"

text \<open>
  The list \<open>recommendations\<close>, from the empty list through the four \<open>if\<close> statements
  and the \<open>if\<close>/\<open>elif\<close>/\<open>else\<close>, each \<open>append\<close> returning the extended list.
\<close>

definition build_recommendations :: "ClinicalData \<Rightarrow> real \<Rightarrow> string list" where
  "build_recommendations cd rf =
     (let r0 = [];
          r1 = (if hba1c cd > 7 then r0 @ [msg_glycemic] else r0);
          r2 = (if blood_pressure_systolic cd > 130 then r1 @ [msg_blood_pressure] else r1);
          r3 = (if bmi cd > 25 then r2 @ [msg_weight] else r2);
          r4 = (if smoking_status cd = ''current'' then r3 @ [msg_smoking] else r3)
      in if rf > 0.7 then r4 @ [msg_urgent]
         else if rf > 0.4 then r4 @ [msg_follow_up]
         else r4 @ [msg_continue])"

definition follow_up :: "real \<Rightarrow> int" where
  "follow_up rf = (if rf > 0.7 then 1 else if rf > 0.4 then 3 else 6)"

text \<open>
  The body of the \<open>try\<close> block: an exception raised inside it is \<open>Inl\<close>. The two
  divisions of the int \<open>diabetes_duration\<close> by a float (lines 18 and 88) convert it first.
\<close>

definition demo_analyze_body :: "environment \<Rightarrow> ClinicalData \<Rightarrow> exception + PredictionResponse" where
  "demo_analyze_body env cd =
     (let start_time = time_start env
      in case float_of_int (diabetes_duration cd) of
           Inl e \<Rightarrow> Inl e
         | Inr duration \<Rightarrow>
     (let rf = min 1 ((hba1c cd / 10 + duration / 20) / 2);
          total = sum_py (dr_probs_raw rf)
      in case div_each (dr_probs_raw rf) total of
           Inl e \<Rightarrow> Inl e
         | Inr dr_probs \<Rightarrow>
        (case argmax dr_probs of
           Inl e \<Rightarrow> Inl e
         | Inr predicted_idx \<Rightarrow>
        (case getitem dr_classes predicted_idx of
           Inl e \<Rightarrow> Inl e
         | Inr stage \<Rightarrow>
        (case getitem dr_probs predicted_idx of
           Inl e \<Rightarrow> Inl e
         | Inr stage_probability \<Rightarrow>
        (case float_of_int (diabetes_duration cd) of
           Inl e \<Rightarrow> Inl e
         | Inr duration_88 \<Rightarrow>
           Inr \<lparr> prediction_id = ''demo_'' @ take 12 (uuid4_hex env),
                 timestamp = datetime_now env,
                 dr_stage = stage,
                 dr_stage_probability = stage_probability,
                 dr_class_probabilities = zip dr_classes dr_probs,
                 overall_risk_score =
                   \<lparr> value_rs = rf,
                     category = (if rf > 0.7 then ''High''
                                 else if rf > 0.4 then ''Moderate'' else ''Low''),
                     confidence = 0.88 \<rparr>,
                 nephropathy_risk =
                   \<lparr> value_rs = min 1 (rf * 1.1),
                     category = (if rf > 0.6 then ''High''
                                 else if rf > 0.3 then ''Moderate'' else ''Low''),
                     confidence = 0.82 \<rparr>,
                 neuropathy_risk =
                   \<lparr> value_rs = min 1 (rf * 0.9),
                     category = (if rf > 0.7 then ''High''
                                 else if rf > 0.4 then ''Moderate'' else ''Low''),
                     confidence = 0.79 \<rparr>,
                 cardiovascular_risk =
                   \<lparr> value_rs = min 1 (rf * 1.05),
                     category = (if rf > 0.65 then ''High''
                                 else if rf > 0.35 then ''Moderate'' else ''Low''),
                     confidence = 0.84 \<rparr>,
                 explanation =
                   \<lparr> image_contribution = 0.60,
                     clinical_contribution = 0.40,
                     top_image_features =
                       [''Microaneurysms detected'', ''Hard exudates present'',
                        ''Retinal hemorrhages''],
                     top_clinical_features =
                       [\<lparr> feature_name = ''HbA1c Level'',
                          contribution = hba1c cd / 15,
                          normalized_contribution = 0.35 \<rparr>,
                        \<lparr> feature_name = ''Diabetes Duration'',
                          contribution = duration_88 / 50,
                          normalized_contribution = 0.25 \<rparr>,
                        \<lparr> feature_name = ''Blood Glucose'',
                          contribution = blood_glucose cd / 500,
                          normalized_contribution = 0.20 \<rparr>],
                     natural_language_explanation =
                       ''Patient shows '' @ stage @ '' with HbA1c of ''
                       @ format_float env (hba1c cd) @ ''% indicating ''
                       @ (if hba1c cd > 7 then ''poor'' else ''good'')
                       @ '' glycemic control. Diabetes duration of ''
                       @ format_int env (diabetes_duration cd) @ '' years is ''
                       @ (if diabetes_duration cd > 10 then ''a significant''
                          else ''a moderate'')
                       @ '' risk factor.'' \<rparr>,
                 recommendations = build_recommendations cd rf,
                 follow_up_months = follow_up rf,
                 model_version = ''v1.0.0-demo'',
                 processing_time_ms = (time_end env - start_time) * 1000 \<rparr>))))))"

text \<open>
  The handler: \<open>except Exception as e: raise HTTPException(status_code=500,
  detail=str(e))\<close>.
\<close>

definition demo_analyze :: "environment \<Rightarrow> ClinicalData \<Rightarrow> HTTPException + PredictionResponse" where
  "demo_analyze env cd =
     (case demo_analyze_body env cd of
        Inl e \<Rightarrow> Inl \<lparr> status_code = 500, detail = str_exception e \<rparr>
      | Inr r \<Rightarrow> Inr r)"

section \<open>Concrete inputs\<close>

text \<open>
  The patient of the worked example (HbA1c 9.5, 15 years of diabetes, systolic 140,
  BMI 30, current smoker), a patient with a negative HbA1c reading, which the schema
  accepts, a patient on the nephropathy boundary, a patient whose diabetes duration is an
  integer beyond the range of a float, which the schema accepts too, a patient with no
  risk, and an environment.
\<close>

definition example_patient :: ClinicalData where
  "example_patient =
     \<lparr> age = 58, gender = ''male'', bmi = 30, hba1c = 9.5, blood_glucose = 180,
       blood_pressure_systolic = 140, blood_pressure_diastolic = 90,
       diabetes_duration = 15, creatinine = 1.1, cholesterol_total = 210,
       cholesterol_ldl = 130, cholesterol_hdl = 45, triglycerides = 160,
       has_hypertension = True, smoking_status = ''current'', family_history = True \<rparr>"

definition negative_patient :: ClinicalData where
  "negative_patient = example_patient \<lparr> hba1c := - 10, diabetes_duration := 0 \<rparr>"

definition boundary_patient :: ClinicalData where
  "boundary_patient = example_patient \<lparr> hba1c := 6.2, diabetes_duration := 10 \<rparr>"

definition overflow_patient :: ClinicalData where
  "overflow_patient = example_patient \<lparr> diabetes_duration := 2 ^ 1024 \<rparr>"

definition healthy_patient :: ClinicalData where
  "healthy_patient =
     \<lparr> age = 30, gender = ''female'', bmi = 22, hba1c = 5, blood_glucose = 95,
       blood_pressure_systolic = 115, blood_pressure_diastolic = 75,
       diabetes_duration = 1, creatinine = 0.8, cholesterol_total = 170,
       cholesterol_ldl = 90, cholesterol_hdl = 60, triglycerides = 100,
       has_hypertension = False, smoking_status = ''never'', family_history = False \<rparr>"

definition example_env :: environment where
  "example_env =
     \<lparr> time_start = 100, uuid4_hex = ''0123456789abcdef0123456789abcdef'',
       datetime_now = 100, time_end = 101,
       format_float = (\<lambda>x. ''?''), format_int = (\<lambda>n. ''?'') \<rparr>"

section \<open>Auxiliary facts\<close>

lemma risk_factor_le_1: "risk_factor cd \<le> 1"
  by (simp add: risk_factor_def)

lemma sum_py_raw: "sum_py (dr_probs_raw rf) = max 0 (0.8 - rf) + 0.2 + rf * 0.7"
  by (simp add: sum_py_def dr_probs_raw_def algebra_simps)

lemma sum_py_raw_pos: "rf \<le> 1 \<Longrightarrow> 0 < sum_py (dr_probs_raw rf)"
  by (simp add: sum_py_raw max_def)

lemma div_each_ok: "t \<noteq> 0 \<Longrightarrow> div_each ps t = Inr (map (\<lambda>p. p / t) ps)"
  by (induction ps) (simp_all add: float_div_def)

lemma argmax_scan_spec:
  "(argmax_scan xs i best_i best = best_i \<and> (\<forall>x\<in>set xs. x \<le> best)) \<or>
   (\<exists>j<length xs. argmax_scan xs i best_i best = i + j \<and> best < xs ! j \<and>
      (\<forall>m<j. xs ! m < xs ! j) \<and> (\<forall>m<length xs. xs ! m \<le> xs ! j))"
proof (induction xs arbitrary: i best_i best)
  case Nil
  then show ?case by simp
next
  case (Cons x xs)
  show ?case
  proof (cases "best < x")
    case True
    from Cons.IH[of "Suc i" i x] show ?thesis
    proof
      assume h: "argmax_scan xs (Suc i) i x = i \<and> (\<forall>y\<in>set xs. y \<le> x)"
      have "0 < length (x # xs) \<and> argmax_scan (x # xs) i best_i best = i + 0 \<and>
            best < (x # xs) ! 0 \<and> (\<forall>m<0. (x # xs) ! m < (x # xs) ! 0) \<and>
            (\<forall>m<length (x # xs). (x # xs) ! m \<le> (x # xs) ! 0)"
        using True h by (auto simp: nth_Cons')
      then show ?thesis by blast
    next
      assume "\<exists>j<length xs. argmax_scan xs (Suc i) i x = Suc i + j \<and> x < xs ! j \<and>
               (\<forall>m<j. xs ! m < xs ! j) \<and> (\<forall>m<length xs. xs ! m \<le> xs ! j)"
      then obtain j where j: "j < length xs" "argmax_scan xs (Suc i) i x = Suc i + j"
        "x < xs ! j" "\<forall>m<j. xs ! m < xs ! j" "\<forall>m<length xs. xs ! m \<le> xs ! j"
        by blast
      have "Suc j < length (x # xs) \<and> argmax_scan (x # xs) i best_i best = i + Suc j \<and>
            best < (x # xs) ! Suc j \<and> (\<forall>m<Suc j. (x # xs) ! m < (x # xs) ! Suc j) \<and>
            (\<forall>m<length (x # xs). (x # xs) ! m \<le> (x # xs) ! Suc j)"
        using True j by (auto simp: nth_Cons' less_Suc_eq_0_disj)
      then show ?thesis by blast
    qed
  next
    case False
    from Cons.IH[of "Suc i" best_i best] show ?thesis
    proof
      assume "argmax_scan xs (Suc i) best_i best = best_i \<and> (\<forall>y\<in>set xs. y \<le> best)"
      then show ?thesis using False by auto
    next
      assume "\<exists>j<length xs. argmax_scan xs (Suc i) best_i best = Suc i + j \<and> best < xs ! j \<and>
               (\<forall>m<j. xs ! m < xs ! j) \<and> (\<forall>m<length xs. xs ! m \<le> xs ! j)"
      then obtain j where j: "j < length xs" "argmax_scan xs (Suc i) best_i best = Suc i + j"
        "best < xs ! j" "\<forall>m<j. xs ! m < xs ! j" "\<forall>m<length xs. xs ! m \<le> xs ! j"
        by blast
      have "Suc j < length (x # xs) \<and> argmax_scan (x # xs) i best_i best = i + Suc j \<and>
            best < (x # xs) ! Suc j \<and> (\<forall>m<Suc j. (x # xs) ! m < (x # xs) ! Suc j) \<and>
            (\<forall>m<length (x # xs). (x # xs) ! m \<le> (x # xs) ! Suc j)"
        using False j by (auto simp: nth_Cons' less_Suc_eq_0_disj)
      then show ?thesis by blast
    qed
  qed
qed

lemma argmax_first_max:
  assumes "xs \<noteq> []"
  shows "\<exists>k<length xs. argmax xs = Inr k \<and> (\<forall>m<length xs. xs ! m \<le> xs ! k) \<and>
           (\<forall>m<k. xs ! m < xs ! k)"
proof -
  from assms obtain x rest where xs: "xs = x # rest" by (cases xs) auto
  from argmax_scan_spec[of rest 1 0 x] show ?thesis
  proof
    assume "argmax_scan rest 1 0 x = 0 \<and> (\<forall>y\<in>set rest. y \<le> x)"
    then have "0 < length xs \<and> argmax xs = Inr 0 \<and> (\<forall>m<length xs. xs ! m \<le> xs ! 0) \<and>
           (\<forall>m<0. xs ! m < xs ! 0)"
      by (auto simp: xs argmax_def nth_Cons')
    then show ?thesis by blast
  next
    assume "\<exists>j<length rest. argmax_scan rest 1 0 x = 1 + j \<and> x < rest ! j \<and>
      (\<forall>m<j. rest ! m < rest ! j) \<and> (\<forall>m<length rest. rest ! m \<le> rest ! j)"
    then obtain j where j: "j < length rest" "argmax_scan rest 1 0 x = 1 + j" "x < rest ! j"
      "\<forall>m<j. rest ! m < rest ! j" "\<forall>m<length rest. rest ! m \<le> rest ! j" by blast
    have "Suc j < length xs \<and> argmax xs = Inr (Suc j) \<and> (\<forall>m<length xs. xs ! m \<le> xs ! Suc j) \<and>
           (\<forall>m<Suc j. xs ! m < xs ! Suc j)"
      using j by (auto simp: xs argmax_def nth_Cons' less_Suc_eq_0_disj)
    then show ?thesis by blast
  qed
qed


lemma length_dr_probs_raw: "length (dr_probs_raw rf) = 5"
  by (simp add: dr_probs_raw_def)

lemma float_of_int_ok: "float_representable n \<Longrightarrow> float_of_int n = Inr (real_of_int n)"
  by (simp add: float_of_int_def)

lemma float_of_int_overflow: "\<not> float_representable n \<Longrightarrow> float_of_int n = Inl OverflowError"
  by (simp add: float_of_int_def)

lemma float_representable_example:
  "float_representable (diabetes_duration example_patient)"
  "float_representable (diabetes_duration negative_patient)"
  "float_representable (diabetes_duration boundary_patient)"
  "float_representable (diabetes_duration healthy_patient)"
  "\<not> float_representable (diabetes_duration overflow_patient)"
  by (simp_all add: float_representable_def example_patient_def negative_patient_def
      boundary_patient_def healthy_patient_def overflow_patient_def)

lemma demo_analyze_body_overflow:
  assumes "\<not> float_representable (diabetes_duration cd)"
  shows "demo_analyze_body env cd = Inl OverflowError"
  unfolding demo_analyze_body_def Let_def float_of_int_overflow[OF assms] sum.case ..

lemma demo_analyze_body_fields:
  assumes rep: "float_representable (diabetes_duration cd)"
  shows "\<exists>r k. demo_analyze_body env cd = Inr r \<and> k < 5 \<and>
     argmax (map (\<lambda>p. p / sum_py (dr_probs_raw (risk_factor cd)))
               (dr_probs_raw (risk_factor cd))) = Inr k \<and>
     dr_stage r = dr_classes ! k \<and>
     dr_stage_probability r =
       map (\<lambda>p. p / sum_py (dr_probs_raw (risk_factor cd))) (dr_probs_raw (risk_factor cd)) ! k \<and>
     dr_class_probabilities r =
       zip dr_classes
         (map (\<lambda>p. p / sum_py (dr_probs_raw (risk_factor cd))) (dr_probs_raw (risk_factor cd))) \<and>
     overall_risk_score r =
       \<lparr> value_rs = risk_factor cd,
         category = (if risk_factor cd > 0.7 then ''High''
                     else if risk_factor cd > 0.4 then ''Moderate'' else ''Low''),
         confidence = 0.88 \<rparr> \<and>
     nephropathy_risk r =
       \<lparr> value_rs = min 1 (risk_factor cd * 1.1),
         category = (if risk_factor cd > 0.6 then ''High''
                     else if risk_factor cd > 0.3 then ''Moderate'' else ''Low''),
         confidence = 0.82 \<rparr> \<and>
     neuropathy_risk r =
       \<lparr> value_rs = min 1 (risk_factor cd * 0.9),
         category = (if risk_factor cd > 0.7 then ''High''
                     else if risk_factor cd > 0.4 then ''Moderate'' else ''Low''),
         confidence = 0.79 \<rparr> \<and>
     cardiovascular_risk r =
       \<lparr> value_rs = min 1 (risk_factor cd * 1.05),
         category = (if risk_factor cd > 0.65 then ''High''
                     else if risk_factor cd > 0.35 then ''Moderate'' else ''Low''),
         confidence = 0.84 \<rparr> \<and>
     recommendations r = build_recommendations cd (risk_factor cd) \<and>
     follow_up_months r = follow_up (risk_factor cd)"
proof -
  let ?raw = "dr_probs_raw (risk_factor cd)"
  let ?ps = "map (\<lambda>p. p / sum_py ?raw) ?raw"
  have fo: "float_of_int (diabetes_duration cd) = Inr (real_of_int (diabetes_duration cd))"
    by (rule float_of_int_ok[OF rep])
  have rf: "min 1 ((hba1c cd / 10 + real_of_int (diabetes_duration cd) / 20) / 2)
              = risk_factor cd"
    by (simp only: risk_factor_def)
  have t: "sum_py ?raw \<noteq> 0"
    using sum_py_raw_pos[OF risk_factor_le_1, of cd] by simp
  have d: "div_each ?raw (sum_py ?raw) = Inr ?ps"
    by (rule div_each_ok[OF t])
  have "?ps \<noteq> []" by (simp add: dr_probs_raw_def)
  from argmax_first_max[OF this] obtain k where
    k: "k < length ?ps" "argmax ?ps = Inr k" by blast
  have k5: "k < 5" using k(1) by (simp add: length_dr_probs_raw)
  have g1: "getitem dr_classes k = Inr (dr_classes ! k)"
    using k5 by (simp add: getitem_def dr_classes_def)
  have g2: "getitem ?ps k = Inr (?ps ! k)"
    using k(1) by (simp add: getitem_def)
  show ?thesis
    unfolding demo_analyze_body_def Let_def fo sum.case rf d k(2) g1 g2
    using k5 by simp
qed

lemma demo_analyze_returns:
  assumes "float_representable (diabetes_duration cd)"
  shows "\<exists>r. demo_analyze env cd = Inr r"
  using demo_analyze_body_fields[OF assms, of env] by (auto simp: demo_analyze_def)

lemma demo_analyze_overflow:
  assumes "\<not> float_representable (diabetes_duration cd)"
  shows "demo_analyze env cd =
           Inl \<lparr> status_code = 500, detail = ''int too large to convert to float'' \<rparr>"
  by (simp add: demo_analyze_def demo_analyze_body_overflow[OF assms])

lemma demo_analyze_returned:
  assumes "demo_analyze env cd = Inr r"
  shows "float_representable (diabetes_duration cd)"
  using assms demo_analyze_overflow[of cd env] by (cases "float_representable (diabetes_duration cd)") auto

lemma demo_analyze_fields:
  assumes ret: "demo_analyze env cd = Inr r"
  shows "\<exists>k. k < 5 \<and>
     argmax (map (\<lambda>p. p / sum_py (dr_probs_raw (risk_factor cd)))
               (dr_probs_raw (risk_factor cd))) = Inr k \<and>
     dr_stage r = dr_classes ! k \<and>
     dr_stage_probability r =
       map (\<lambda>p. p / sum_py (dr_probs_raw (risk_factor cd))) (dr_probs_raw (risk_factor cd)) ! k \<and>
     dr_class_probabilities r =
       zip dr_classes
         (map (\<lambda>p. p / sum_py (dr_probs_raw (risk_factor cd))) (dr_probs_raw (risk_factor cd))) \<and>
     overall_risk_score r =
       \<lparr> value_rs = risk_factor cd,
         category = (if risk_factor cd > 0.7 then ''High''
                     else if risk_factor cd > 0.4 then ''Moderate'' else ''Low''),
         confidence = 0.88 \<rparr> \<and>
     nephropathy_risk r =
       \<lparr> value_rs = min 1 (risk_factor cd * 1.1),
         category = (if risk_factor cd > 0.6 then ''High''
                     else if risk_factor cd > 0.3 then ''Moderate'' else ''Low''),
         confidence = 0.82 \<rparr> \<and>
     neuropathy_risk r =
       \<lparr> value_rs = min 1 (risk_factor cd * 0.9),
         category = (if risk_factor cd > 0.7 then ''High''
                     else if risk_factor cd > 0.4 then ''Moderate'' else ''Low''),
         confidence = 0.79 \<rparr> \<and>
     cardiovascular_risk r =
       \<lparr> value_rs = min 1 (risk_factor cd * 1.05),
         category = (if risk_factor cd > 0.65 then ''High''
                     else if risk_factor cd > 0.35 then ''Moderate'' else ''Low''),
         confidence = 0.84 \<rparr> \<and>
     recommendations r = build_recommendations cd (risk_factor cd) \<and>
     follow_up_months r = follow_up (risk_factor cd)"
proof -
  from demo_analyze_body_fields[OF demo_analyze_returned[OF ret], of env]
  obtain r' where b: "demo_analyze_body env cd = Inr r'" by blast
  with ret have "r' = r" by (simp add: demo_analyze_def)
  with b demo_analyze_body_fields[OF demo_analyze_returned[OF ret], of env]
  show ?thesis by auto
qed

section \<open>The risk factor and the stage weights\<close>

text \<open>
  Claim C10. For every real-valued input, also outside the documented ranges, the sum of
  the five unnormalised stage weights \<open>max(0, 0.8 - risk_factor)\<close>, \<open>0.1\<close>,
  \<open>0.05 + risk_factor * 0.2\<close>, \<open>0.05 + risk_factor * 0.3\<close>, \<open>risk_factor * 0.2\<close> is
  strictly positive, so the normalisation divides by a non-zero total and yields the
  list of quotients.
\<close>

theorem stage_weights_sum_positive:
  "sum_py (dr_probs_raw (risk_factor cd)) =
     max 0 (0.8 - risk_factor cd) + 0.1 + (0.05 + risk_factor cd * 0.2)
       + (0.05 + risk_factor cd * 0.3) + risk_factor cd * 0.2 \<and>
   0 < sum_py (dr_probs_raw (risk_factor cd)) \<and>
   div_each (dr_probs_raw (risk_factor cd)) (sum_py (dr_probs_raw (risk_factor cd))) =
     Inr (map (\<lambda>p. p / sum_py (dr_probs_raw (risk_factor cd))) (dr_probs_raw (risk_factor cd)))"
proof -
  have pos: "0 < sum_py (dr_probs_raw (risk_factor cd))"
    by (rule sum_py_raw_pos[OF risk_factor_le_1])
  have eq: "sum_py (dr_probs_raw (risk_factor cd)) =
     max 0 (0.8 - risk_factor cd) + 0.1 + (0.05 + risk_factor cd * 0.2)
       + (0.05 + risk_factor cd * 0.3) + risk_factor cd * 0.2"
    by (simp add: sum_py_def dr_probs_raw_def)
  from pos have "sum_py (dr_probs_raw (risk_factor cd)) \<noteq> 0" by simp
  from div_each_ok[OF this] pos eq show ?thesis by blast
qed




lemma snd_zip_classes:
  "map snd (zip dr_classes (map f (dr_probs_raw rf))) = map f (dr_probs_raw rf)"
  by (simp add: dr_classes_def dr_probs_raw_def)

lemma fst_zip_classes:
  "map fst (zip dr_classes (map f (dr_probs_raw rf))) = dr_classes"
  by (simp add: dr_classes_def dr_probs_raw_def)

lemma normalised_sum_1:
  assumes "rf \<le> 1"
  shows "sum_list (map (\<lambda>p. p / sum_py (dr_probs_raw rf)) (dr_probs_raw rf)) = 1"
proof -
  have pos: "0 < sum_py (dr_probs_raw rf)" by (rule sum_py_raw_pos[OF assms])
  have "sum_list (map (\<lambda>p. p / sum_py (dr_probs_raw rf)) (dr_probs_raw rf))
        = sum_list (dr_probs_raw rf) / sum_py (dr_probs_raw rf)"
    by (simp add: dr_probs_raw_def add_divide_distrib)
  also have "sum_list (dr_probs_raw rf) = sum_py (dr_probs_raw rf)"
    by (simp add: dr_probs_raw_def sum_py_def)
  finally show ?thesis using pos by simp
qed

lemma normalised_in_unit_iff:
  assumes "rf \<le> 1"
  shows "(\<forall>p\<in>set (map (\<lambda>p. p / sum_py (dr_probs_raw rf)) (dr_probs_raw rf)). 0 \<le> p \<and> p \<le> 1)
         \<longleftrightarrow> 0 \<le> rf"
proof -
  have pos: "0 < sum_py (dr_probs_raw rf)" by (rule sum_py_raw_pos[OF assms])
  show ?thesis
  proof
    assume "\<forall>p\<in>set (map (\<lambda>p. p / sum_py (dr_probs_raw rf)) (dr_probs_raw rf)). 0 \<le> p \<and> p \<le> 1"
    then have "0 \<le> rf * 0.2 / sum_py (dr_probs_raw rf)"
      by (simp add: dr_probs_raw_def)
    with pos show "0 \<le> rf" by (simp add: zero_le_divide_iff)
  next
    assume rf: "0 \<le> rf"
    have "0 \<le> p \<and> p \<le> sum_py (dr_probs_raw rf)" if "p \<in> set (dr_probs_raw rf)" for p
      using that rf unfolding sum_py_raw by (auto simp: dr_probs_raw_def max_def)
    with pos show "\<forall>p\<in>set (map (\<lambda>p. p / sum_py (dr_probs_raw rf)) (dr_probs_raw rf)). 0 \<le> p \<and> p \<le> 1"
      by (auto simp: divide_le_eq_1)
  qed
qed

section \<open>The stage distribution\<close>

text \<open>
  Claim C1, as stated: for every valid input (only \<open>age\<close> constrained) each of the five
  normalised probabilities lies in [0,1]. With HbA1c -10 and duration 0 the risk factor
  is -0.5 and the distribution is 26/23, 2/23, -1/23, -2/23, -2/23.
\<close>

theorem stage_probabilities_counterexample:
  "valid_ClinicalData negative_patient \<and>
   \<not> isl (demo_analyze example_env negative_patient) \<and>
   map snd (dr_class_probabilities (projr (demo_analyze example_env negative_patient))) =
     [26/23, 2/23, - (1/23), - (2/23), - (2/23)] \<and>
   snd (dr_class_probabilities (projr (demo_analyze example_env negative_patient)) ! 4) < 0 \<and>
   1 < snd (dr_class_probabilities (projr (demo_analyze example_env negative_patient)) ! 0)"
  by (simp add: valid_ClinicalData_def demo_analyze_def demo_analyze_body_def Let_def
      float_of_int_def float_representable_def
      risk_factor_def dr_probs_raw_def sum_py_def float_div_def argmax_def getitem_def
      dr_classes_def negative_patient_def example_patient_def)

text \<open>
  Claim C1, amended. For every valid input \<open>demo_analyze\<close> returns a response whenever
  \<open>diabetes_duration\<close> converts to a float, and in every response it returns
  \<open>dr_class_probabilities\<close> holds the five stage labels in their fixed order with
  probabilities that sum to 1; every one of them lies in [0,1] exactly when the risk
  factor is non-negative.
\<close>

theorem stage_probabilities_sum_1:
  assumes "valid_ClinicalData cd"
  shows "(float_representable (diabetes_duration cd) \<longrightarrow> (\<exists>r. demo_analyze env cd = Inr r)) \<and>
         (\<forall>r. demo_analyze env cd = Inr r \<longrightarrow>
           map fst (dr_class_probabilities r) = dr_classes \<and>
           length (dr_class_probabilities r) = 5 \<and>
           sum_list (map snd (dr_class_probabilities r)) = 1 \<and>
           ((\<forall>p\<in>set (map snd (dr_class_probabilities r)). 0 \<le> p \<and> p \<le> 1)
              \<longleftrightarrow> 0 \<le> risk_factor cd))"
proof -
  have 1: "float_representable (diabetes_duration cd) \<longrightarrow> (\<exists>r. demo_analyze env cd = Inr r)"
    using demo_analyze_returns by blast
  have 2: "map fst (dr_class_probabilities r) = dr_classes \<and>
           length (dr_class_probabilities r) = 5 \<and>
           sum_list (map snd (dr_class_probabilities r)) = 1 \<and>
           ((\<forall>p\<in>set (map snd (dr_class_probabilities r)). 0 \<le> p \<and> p \<le> 1)
              \<longleftrightarrow> 0 \<le> risk_factor cd)"
    if ret: "demo_analyze env cd = Inr r" for r
  proof -
    from demo_analyze_fields[OF ret] have
      r: "dr_class_probabilities r =
          zip dr_classes
            (map (\<lambda>p. p / sum_py (dr_probs_raw (risk_factor cd))) (dr_probs_raw (risk_factor cd)))"
      by blast
    have "length (dr_class_probabilities r) = 5"
      by (simp add: r dr_classes_def dr_probs_raw_def)
    moreover have "map fst (dr_class_probabilities r) = dr_classes"
      by (simp only: r fst_zip_classes)
    moreover have "sum_list (map snd (dr_class_probabilities r)) = 1"
      by (simp only: r snd_zip_classes normalised_sum_1[OF risk_factor_le_1])
    moreover have "(\<forall>p\<in>set (map snd (dr_class_probabilities r)). 0 \<le> p \<and> p \<le> 1)
                \<longleftrightarrow> 0 \<le> risk_factor cd"
      by (simp only: r snd_zip_classes normalised_in_unit_iff[OF risk_factor_le_1])
    ultimately show ?thesis by blast
  qed
  from 1 2 show ?thesis by blast
qed

theorem stage_probabilities_sum_1_witness:
  "valid_ClinicalData example_patient \<and>
   float_representable (diabetes_duration example_patient) \<and>
   (\<exists>r. demo_analyze example_env example_patient = Inr r \<and>
        map fst (dr_class_probabilities r) = dr_classes \<and>
        length (dr_class_probabilities r) = 5 \<and>
        sum_list (map snd (dr_class_probabilities r)) = 1 \<and>
        (\<forall>p\<in>set (map snd (dr_class_probabilities r)). 0 \<le> p \<and> p \<le> 1))"
proof -
  have v: "valid_ClinicalData example_patient"
    by (simp add: valid_ClinicalData_def example_patient_def)
  have rep: "float_representable (diabetes_duration example_patient)"
    by (rule float_representable_example)
  have "0 \<le> risk_factor example_patient"
    by (simp add: risk_factor_def example_patient_def)
  with v rep stage_probabilities_sum_1[OF v, of example_env] show ?thesis by auto
qed

section \<open>The worked example\<close>

text \<open>
  Claim C3. For any valid input with HbA1c 9.5, diabetes duration 15, systolic pressure
  140, BMI 30 and smoking status "current" (the other fields arbitrary), the risk factor
  is 0.85, the raw weights are 0, 0.1, 0.22, 0.305, 0.17 with sum 0.795, the returned
  distribution is these weights divided by 0.795, the predicted stage is "Severe NPDR",
  the recommendations are the four threshold messages followed by the urgent-referral
  message, the follow-up interval is 1 month and the overall category is "High".
\<close>

theorem worked_example:
  assumes "valid_ClinicalData cd"
    and "hba1c cd = 9.5" and "diabetes_duration cd = 15"
    and "blood_pressure_systolic cd = 140" and "bmi cd = 30"
    and "smoking_status cd = ''current''"
  shows "risk_factor cd = 0.85 \<and>
         dr_probs_raw (risk_factor cd) = [0, 0.1, 0.22, 0.305, 0.17] \<and>
         sum_py (dr_probs_raw (risk_factor cd)) = 0.795 \<and>
         (\<exists>r. demo_analyze env cd = Inr r \<and>
              dr_class_probabilities r =
                zip dr_classes (map (\<lambda>w. w / 0.795) [0, 0.1, 0.22, 0.305, 0.17]) \<and>
              dr_stage r = ''Severe NPDR'' \<and>
              recommendations r =
                [msg_glycemic, msg_blood_pressure, msg_weight, msg_smoking, msg_urgent] \<and>
              follow_up_months r = 1 \<and>
              category (overall_risk_score r) = ''High'')"
proof -
  have rf: "risk_factor cd = 0.85"
    using assms(2,3) by (simp add: risk_factor_def)
  have raw: "dr_probs_raw (risk_factor cd) = [0, 0.1, 0.22, 0.305, 0.17]"
    by (simp add: rf dr_probs_raw_def)
  have total: "sum_py (dr_probs_raw (risk_factor cd)) = 0.795"
    by (simp add: raw sum_py_def)
  have am: "argmax (map (\<lambda>p. p / sum_py (dr_probs_raw (risk_factor cd)))
               (dr_probs_raw (risk_factor cd))) = Inr 3"
    unfolding total unfolding raw by (simp add: argmax_def)
  have rep: "float_representable (diabetes_duration cd)"
    by (simp add: assms(3) float_representable_def)
  from demo_analyze_returns[OF rep, of env] obtain r where
    ret: "demo_analyze env cd = Inr r" by blast
  from demo_analyze_fields[OF ret] obtain k where
    r: "argmax (map (\<lambda>p. p / sum_py (dr_probs_raw (risk_factor cd)))
               (dr_probs_raw (risk_factor cd))) = Inr k"
       "dr_stage r = dr_classes ! k"
       "dr_class_probabilities r =
          zip dr_classes
            (map (\<lambda>p. p / sum_py (dr_probs_raw (risk_factor cd))) (dr_probs_raw (risk_factor cd)))"
       "overall_risk_score r =
          \<lparr> value_rs = risk_factor cd,
            category = (if risk_factor cd > 0.7 then ''High''
                        else if risk_factor cd > 0.4 then ''Moderate'' else ''Low''),
            confidence = 0.88 \<rparr>"
       "recommendations r = build_recommendations cd (risk_factor cd)"
       "follow_up_months r = follow_up (risk_factor cd)"
    by blast
  have k: "k = 3" using r(1) am by simp
  have p: "dr_class_probabilities r =
             zip dr_classes (map (\<lambda>w. w / 0.795) [0, 0.1, 0.22, 0.305, 0.17])"
    unfolding r(3) total unfolding raw ..
  have s: "dr_stage r = ''Severe NPDR''"
    by (simp add: r(2) k dr_classes_def)
  have recs: "recommendations r =
                [msg_glycemic, msg_blood_pressure, msg_weight, msg_smoking, msg_urgent]"
    using assms(2,4,5,6) by (simp add: r(5) rf build_recommendations_def)
  have fu: "follow_up_months r = 1"
    by (simp add: r(6) rf follow_up_def)
  have cat: "category (overall_risk_score r) = ''High''"
    by (simp add: r(4) rf)
  from rf raw total ret p s recs fu cat show ?thesis by blast
qed

theorem worked_example_witness:
  "valid_ClinicalData example_patient \<and> hba1c example_patient = 9.5 \<and>
   diabetes_duration example_patient = 15 \<and> blood_pressure_systolic example_patient = 140 \<and>
   bmi example_patient = 30 \<and> smoking_status example_patient = ''current'' \<and>
   risk_factor example_patient = 0.85 \<and>
   (\<exists>r. demo_analyze example_env example_patient = Inr r \<and>
        dr_stage r = ''Severe NPDR'' \<and>
        recommendations r =
          [msg_glycemic, msg_blood_pressure, msg_weight, msg_smoking, msg_urgent] \<and>
        follow_up_months r = 1 \<and>
        category (overall_risk_score r) = ''High'')"
proof -
  have v: "valid_ClinicalData example_patient"
    by (simp add: valid_ClinicalData_def example_patient_def)
  have h: "hba1c example_patient = 9.5" "diabetes_duration example_patient = 15"
    "blood_pressure_systolic example_patient = 140" "bmi example_patient = 30"
    "smoking_status example_patient = ''current''"
    by (simp_all add: example_patient_def)
  from worked_example[OF v h, of example_env] v h show ?thesis by blast
qed

section \<open>Risk scores\<close>

text \<open>
  Claim C4, as stated: each category is determined by comparing that score's own value
  with its boundaries. With HbA1c 6.2 and duration 10 the risk factor is 0.56; the
  nephropathy value is 0.616, above 0.6, and its category is not "High".
\<close>

theorem category_by_own_value_counterexample:
  "valid_ClinicalData boundary_patient \<and>
   \<not> isl (demo_analyze example_env boundary_patient) \<and>
   value_rs (nephropathy_risk (projr (demo_analyze example_env boundary_patient))) > 0.6 \<and>
   category (nephropathy_risk (projr (demo_analyze example_env boundary_patient))) \<noteq> ''High''"
  by (simp add: valid_ClinicalData_def demo_analyze_def demo_analyze_body_def Let_def
      float_of_int_def float_representable_def
      risk_factor_def dr_probs_raw_def sum_py_def float_div_def argmax_def getitem_def
      dr_classes_def boundary_patient_def example_patient_def)

text \<open>
  Claim C4, amended. For every valid input \<open>demo_analyze\<close> returns a response whenever
  \<open>diabetes_duration\<close> converts to a float, and in every response it returns all four
  categories are determined by the risk factor, which is the value of the overall score
  and not the scaled value of the other three: overall "High" above 0.7, "Moderate"
  above 0.4, else "Low"; nephropathy with 0.6 and 0.3; neuropathy with 0.7 and 0.4;
  cardiovascular with 0.65 and 0.35.
\<close>

theorem category_by_risk_factor:
  assumes "valid_ClinicalData cd"
  shows "(float_representable (diabetes_duration cd) \<longrightarrow> (\<exists>r. demo_analyze env cd = Inr r)) \<and>
   (\<forall>r. demo_analyze env cd = Inr r \<longrightarrow>
     value_rs (overall_risk_score r) = risk_factor cd \<and>
     category (overall_risk_score r) =
       (if value_rs (overall_risk_score r) > 0.7 then ''High''
        else if value_rs (overall_risk_score r) > 0.4 then ''Moderate'' else ''Low'') \<and>
     category (nephropathy_risk r) =
       (if risk_factor cd > 0.6 then ''High''
        else if risk_factor cd > 0.3 then ''Moderate'' else ''Low'') \<and>
     category (neuropathy_risk r) =
       (if risk_factor cd > 0.7 then ''High''
        else if risk_factor cd > 0.4 then ''Moderate'' else ''Low'') \<and>
     category (cardiovascular_risk r) =
       (if risk_factor cd > 0.65 then ''High''
        else if risk_factor cd > 0.35 then ''Moderate'' else ''Low''))"
proof -
  have 1: "float_representable (diabetes_duration cd) \<longrightarrow> (\<exists>r. demo_analyze env cd = Inr r)"
    using demo_analyze_returns by blast
  have 2: "value_rs (overall_risk_score r) = risk_factor cd \<and>
     category (overall_risk_score r) =
       (if value_rs (overall_risk_score r) > 0.7 then ''High''
        else if value_rs (overall_risk_score r) > 0.4 then ''Moderate'' else ''Low'') \<and>
     category (nephropathy_risk r) =
       (if risk_factor cd > 0.6 then ''High''
        else if risk_factor cd > 0.3 then ''Moderate'' else ''Low'') \<and>
     category (neuropathy_risk r) =
       (if risk_factor cd > 0.7 then ''High''
        else if risk_factor cd > 0.4 then ''Moderate'' else ''Low'') \<and>
     category (cardiovascular_risk r) =
       (if risk_factor cd > 0.65 then ''High''
        else if risk_factor cd > 0.35 then ''Moderate'' else ''Low'')"
    if ret: "demo_analyze env cd = Inr r" for r
  proof -
    from demo_analyze_fields[OF ret] have
      r: "overall_risk_score r =
            \<lparr> value_rs = risk_factor cd,
              category = (if risk_factor cd > 0.7 then ''High''
                          else if risk_factor cd > 0.4 then ''Moderate'' else ''Low''),
              confidence = 0.88 \<rparr>"
         "nephropathy_risk r =
            \<lparr> value_rs = min 1 (risk_factor cd * 1.1),
              category = (if risk_factor cd > 0.6 then ''High''
                          else if risk_factor cd > 0.3 then ''Moderate'' else ''Low''),
              confidence = 0.82 \<rparr>"
         "neuropathy_risk r =
            \<lparr> value_rs = min 1 (risk_factor cd * 0.9),
              category = (if risk_factor cd > 0.7 then ''High''
                          else if risk_factor cd > 0.4 then ''Moderate'' else ''Low''),
              confidence = 0.79 \<rparr>"
         "cardiovascular_risk r =
            \<lparr> value_rs = min 1 (risk_factor cd * 1.05),
              category = (if risk_factor cd > 0.65 then ''High''
                          else if risk_factor cd > 0.35 then ''Moderate'' else ''Low''),
              confidence = 0.84 \<rparr>"
      by blast+
    have "value_rs (overall_risk_score r) = risk_factor cd" by (simp add: r(1))
    moreover have "category (overall_risk_score r) =
         (if value_rs (overall_risk_score r) > 0.7 then ''High''
          else if value_rs (overall_risk_score r) > 0.4 then ''Moderate'' else ''Low'')"
      by (simp add: r(1))
    moreover have "category (nephropathy_risk r) =
         (if risk_factor cd > 0.6 then ''High''
          else if risk_factor cd > 0.3 then ''Moderate'' else ''Low'')"
      by (simp add: r(2))
    moreover have "category (neuropathy_risk r) =
         (if risk_factor cd > 0.7 then ''High''
          else if risk_factor cd > 0.4 then ''Moderate'' else ''Low'')"
      by (simp add: r(3))
    moreover have "category (cardiovascular_risk r) =
         (if risk_factor cd > 0.65 then ''High''
          else if risk_factor cd > 0.35 then ''Moderate'' else ''Low'')"
      by (simp add: r(4))
    ultimately show ?thesis by blast
  qed
  from 1 2 show ?thesis by blast
qed

theorem category_by_risk_factor_witness:
  "valid_ClinicalData boundary_patient \<and>
   float_representable (diabetes_duration boundary_patient) \<and>
   (\<exists>r. demo_analyze example_env boundary_patient = Inr r \<and>
        category (overall_risk_score r) = ''Moderate'' \<and>
        category (nephropathy_risk r) = ''Moderate'' \<and>
        category (neuropathy_risk r) = ''Moderate'' \<and>
        category (cardiovascular_risk r) = ''Moderate'')"
proof -
  have v: "valid_ClinicalData boundary_patient"
    by (simp add: valid_ClinicalData_def boundary_patient_def example_patient_def)
  have rep: "float_representable (diabetes_duration boundary_patient)"
    by (rule float_representable_example)
  have rf: "risk_factor boundary_patient = 0.56"
    by (simp add: risk_factor_def boundary_patient_def example_patient_def)
  note t = category_by_risk_factor[OF v, of example_env]
  from t rep obtain r where ret: "demo_analyze example_env boundary_patient = Inr r"
    by blast
  from t ret have
    "value_rs (overall_risk_score r) = risk_factor boundary_patient \<and>
     category (overall_risk_score r) =
       (if value_rs (overall_risk_score r) > 0.7 then ''High''
        else if value_rs (overall_risk_score r) > 0.4 then ''Moderate'' else ''Low'') \<and>
     category (nephropathy_risk r) =
       (if risk_factor boundary_patient > 0.6 then ''High''
        else if risk_factor boundary_patient > 0.3 then ''Moderate'' else ''Low'') \<and>
     category (neuropathy_risk r) =
       (if risk_factor boundary_patient > 0.7 then ''High''
        else if risk_factor boundary_patient > 0.4 then ''Moderate'' else ''Low'') \<and>
     category (cardiovascular_risk r) =
       (if risk_factor boundary_patient > 0.65 then ''High''
        else if risk_factor boundary_patient > 0.35 then ''Moderate'' else ''Low'')"
    by blast
  then have "category (overall_risk_score r) = ''Moderate'' \<and>
        category (nephropathy_risk r) = ''Moderate'' \<and>
        category (neuropathy_risk r) = ''Moderate'' \<and>
        category (cardiovascular_risk r) = ''Moderate''"
    by (simp add: rf)
  with v rep ret show ?thesis by blast
qed

text \<open>
  Claim C5, as stated: every risk-score value lies in [0,1]. With HbA1c -10 and duration
  0 the overall value is the risk factor -0.5.
\<close>

theorem risk_score_value_negative_counterexample:
  "valid_ClinicalData negative_patient \<and>
   \<not> isl (demo_analyze example_env negative_patient) \<and>
   value_rs (overall_risk_score (projr (demo_analyze example_env negative_patient))) = - (1/2) \<and>
   \<not> (0 \<le> value_rs (overall_risk_score (projr (demo_analyze example_env negative_patient))))"
  by (simp add: valid_ClinicalData_def demo_analyze_def demo_analyze_body_def Let_def
      float_of_int_def float_representable_def
      risk_factor_def dr_probs_raw_def sum_py_def float_div_def argmax_def getitem_def
      dr_classes_def negative_patient_def example_patient_def)

text \<open>
  Claim C5, amended. For every valid input \<open>demo_analyze\<close> returns a response whenever
  \<open>diabetes_duration\<close> converts to a float, and in every response it returns the four
  values are \<open>risk_factor * 1.0\<close>, \<open>min(1.0, risk_factor * 1.1)\<close>,
  \<open>min(1.0, risk_factor * 0.9)\<close> and \<open>min(1.0, risk_factor * 1.05)\<close>, with confidences
  0.88, 0.82, 0.79 and 0.84; each value is at most 1, and is at least 0 exactly when the
  risk factor is non-negative.
\<close>

theorem risk_score_values:
  assumes "valid_ClinicalData cd"
  shows "(float_representable (diabetes_duration cd) \<longrightarrow> (\<exists>r. demo_analyze env cd = Inr r)) \<and>
   (\<forall>r. demo_analyze env cd = Inr r \<longrightarrow>
     value_rs (overall_risk_score r) = risk_factor cd * 1.0 \<and>
     value_rs (nephropathy_risk r) = min 1.0 (risk_factor cd * 1.1) \<and>
     value_rs (neuropathy_risk r) = min 1.0 (risk_factor cd * 0.9) \<and>
     value_rs (cardiovascular_risk r) = min 1.0 (risk_factor cd * 1.05) \<and>
     confidence (overall_risk_score r) = 0.88 \<and>
     confidence (nephropathy_risk r) = 0.82 \<and>
     confidence (neuropathy_risk r) = 0.79 \<and>
     confidence (cardiovascular_risk r) = 0.84 \<and>
     (\<forall>s \<in> {overall_risk_score r, nephropathy_risk r, neuropathy_risk r,
              cardiovascular_risk r}.
        value_rs s \<le> 1 \<and> (0 \<le> value_rs s \<longleftrightarrow> 0 \<le> risk_factor cd)))"
proof -
  have 1: "float_representable (diabetes_duration cd) \<longrightarrow> (\<exists>r. demo_analyze env cd = Inr r)"
    using demo_analyze_returns by blast
  have 2: "value_rs (overall_risk_score r) = risk_factor cd * 1.0 \<and>
     value_rs (nephropathy_risk r) = min 1.0 (risk_factor cd * 1.1) \<and>
     value_rs (neuropathy_risk r) = min 1.0 (risk_factor cd * 0.9) \<and>
     value_rs (cardiovascular_risk r) = min 1.0 (risk_factor cd * 1.05) \<and>
     confidence (overall_risk_score r) = 0.88 \<and>
     confidence (nephropathy_risk r) = 0.82 \<and>
     confidence (neuropathy_risk r) = 0.79 \<and>
     confidence (cardiovascular_risk r) = 0.84 \<and>
     (\<forall>s \<in> {overall_risk_score r, nephropathy_risk r, neuropathy_risk r,
              cardiovascular_risk r}.
        value_rs s \<le> 1 \<and> (0 \<le> value_rs s \<longleftrightarrow> 0 \<le> risk_factor cd))"
    if ret: "demo_analyze env cd = Inr r" for r
  proof -
    from demo_analyze_fields[OF ret] have
      r: "overall_risk_score r =
            \<lparr> value_rs = risk_factor cd,
              category = (if risk_factor cd > 0.7 then ''High''
                          else if risk_factor cd > 0.4 then ''Moderate'' else ''Low''),
              confidence = 0.88 \<rparr>"
         "nephropathy_risk r =
            \<lparr> value_rs = min 1 (risk_factor cd * 1.1),
              category = (if risk_factor cd > 0.6 then ''High''
                          else if risk_factor cd > 0.3 then ''Moderate'' else ''Low''),
              confidence = 0.82 \<rparr>"
         "neuropathy_risk r =
            \<lparr> value_rs = min 1 (risk_factor cd * 0.9),
              category = (if risk_factor cd > 0.7 then ''High''
                          else if risk_factor cd > 0.4 then ''Moderate'' else ''Low''),
              confidence = 0.79 \<rparr>"
         "cardiovascular_risk r =
            \<lparr> value_rs = min 1 (risk_factor cd * 1.05),
              category = (if risk_factor cd > 0.65 then ''High''
                          else if risk_factor cd > 0.35 then ''Moderate'' else ''Low''),
              confidence = 0.84 \<rparr>"
      by blast+
    have le: "risk_factor cd \<le> 1" by (rule risk_factor_le_1)
    have v: "value_rs (overall_risk_score r) = risk_factor cd * 1.0"
      "value_rs (nephropathy_risk r) = min 1.0 (risk_factor cd * 1.1)"
      "value_rs (neuropathy_risk r) = min 1.0 (risk_factor cd * 0.9)"
      "value_rs (cardiovascular_risk r) = min 1.0 (risk_factor cd * 1.05)"
      by (simp_all add: r)
    have c: "confidence (overall_risk_score r) = 0.88"
      "confidence (nephropathy_risk r) = 0.82"
      "confidence (neuropathy_risk r) = 0.79"
      "confidence (cardiovascular_risk r) = 0.84"
      by (simp_all add: r)
    have b: "\<forall>s \<in> {overall_risk_score r, nephropathy_risk r, neuropathy_risk r,
                cardiovascular_risk r}.
          value_rs s \<le> 1 \<and> (0 \<le> value_rs s \<longleftrightarrow> 0 \<le> risk_factor cd)"
      using le by (auto simp: v min_def zero_le_mult_iff)
    from v c b show ?thesis by blast
  qed
  from 1 2 show ?thesis by blast
qed

theorem risk_score_values_witness:
  "valid_ClinicalData example_patient \<and>
   float_representable (diabetes_duration example_patient) \<and>
   (\<exists>r. demo_analyze example_env example_patient = Inr r \<and>
        value_rs (overall_risk_score r) = 0.85 \<and>
        value_rs (nephropathy_risk r) = 0.935 \<and>
        value_rs (neuropathy_risk r) = 0.765 \<and>
        value_rs (cardiovascular_risk r) = 0.8925 \<and>
        confidence (overall_risk_score r) = 0.88)"
proof -
  have v: "valid_ClinicalData example_patient"
    by (simp add: valid_ClinicalData_def example_patient_def)
  have rep: "float_representable (diabetes_duration example_patient)"
    by (rule float_representable_example)
  have rf: "risk_factor example_patient = 0.85"
    by (simp add: risk_factor_def example_patient_def)
  note t = risk_score_values[OF v, of example_env]
  from t rep obtain r where ret: "demo_analyze example_env example_patient = Inr r"
    by blast
  from t ret have
    "value_rs (overall_risk_score r) = risk_factor example_patient * 1.0"
    "value_rs (nephropathy_risk r) = min 1.0 (risk_factor example_patient * 1.1)"
    "value_rs (neuropathy_risk r) = min 1.0 (risk_factor example_patient * 0.9)"
    "value_rs (cardiovascular_risk r) = min 1.0 (risk_factor example_patient * 1.05)"
    "confidence (overall_risk_score r) = 0.88"
    by blast+
  then have "value_rs (overall_risk_score r) = 0.85 \<and>
        value_rs (nephropathy_risk r) = 0.935 \<and>
        value_rs (neuropathy_risk r) = 0.765 \<and>
        value_rs (cardiovascular_risk r) = 0.8925 \<and>
        confidence (overall_risk_score r) = 0.88"
    by (simp add: rf)
  with v rep ret show ?thesis by blast
qed

section \<open>The predicted stage\<close>

text \<open>
  Claim C6. For every valid input \<open>demo_analyze\<close> returns a response whenever
  \<open>diabetes_duration\<close> converts to a float, and in every response it returns
  \<open>dr_stage\<close> is the label, in the fixed order of the five labels, at an index whose
  normalised probability is maximal, every earlier index has a strictly smaller
  probability (ties go to the first maximal index), and \<open>dr_stage_probability\<close> is that
  maximal probability.
\<close>

theorem predicted_stage_first_max:
  assumes "valid_ClinicalData cd"
  shows "(float_representable (diabetes_duration cd) \<longrightarrow> (\<exists>r. demo_analyze env cd = Inr r)) \<and>
   (\<forall>r. demo_analyze env cd = Inr r \<longrightarrow>
     (\<exists>k. map fst (dr_class_probabilities r) = dr_classes \<and>
       k < length (dr_class_probabilities r) \<and>
       dr_stage r = fst (dr_class_probabilities r ! k) \<and>
       dr_stage_probability r = snd (dr_class_probabilities r ! k) \<and>
       (\<forall>m<length (dr_class_probabilities r).
          snd (dr_class_probabilities r ! m) \<le> dr_stage_probability r) \<and>
       (\<forall>m<k. snd (dr_class_probabilities r ! m) < dr_stage_probability r)))"
proof -
  have 1: "float_representable (diabetes_duration cd) \<longrightarrow> (\<exists>r. demo_analyze env cd = Inr r)"
    using demo_analyze_returns by blast
  have 2: "\<exists>k. map fst (dr_class_probabilities r) = dr_classes \<and>
       k < length (dr_class_probabilities r) \<and>
       dr_stage r = fst (dr_class_probabilities r ! k) \<and>
       dr_stage_probability r = snd (dr_class_probabilities r ! k) \<and>
       (\<forall>m<length (dr_class_probabilities r).
          snd (dr_class_probabilities r ! m) \<le> dr_stage_probability r) \<and>
       (\<forall>m<k. snd (dr_class_probabilities r ! m) < dr_stage_probability r)"
    if ret: "demo_analyze env cd = Inr r" for r
  proof -
    let ?ps = "map (\<lambda>p. p / sum_py (dr_probs_raw (risk_factor cd))) (dr_probs_raw (risk_factor cd))"
    from demo_analyze_fields[OF ret] obtain k where
      r: "k < 5" "argmax ?ps = Inr k"
         "dr_stage r = dr_classes ! k" "dr_stage_probability r = ?ps ! k"
         "dr_class_probabilities r = zip dr_classes ?ps"
      by blast
    have len: "length ?ps = 5" "length dr_classes = 5"
      by (simp_all add: length_dr_probs_raw dr_classes_def)
    have "?ps \<noteq> []" using len(1) by auto
    from argmax_first_max[OF this] r(2) have
      mx: "\<forall>m<length ?ps. ?ps ! m \<le> ?ps ! k" "\<forall>m<k. ?ps ! m < ?ps ! k"
      by auto
    have n: "length (dr_class_probabilities r) = 5"
      by (simp only: r(5) length_zip len min.idem)
    have nth: "dr_class_probabilities r ! m = (dr_classes ! m, ?ps ! m)" if "m < 5" for m
      using that nth_zip[of m dr_classes ?ps] by (simp only: r(5) len)
    have "map fst (dr_class_probabilities r) = dr_classes"
      by (simp only: r(5) fst_zip_classes)
    moreover have "k < length (dr_class_probabilities r)" using r(1) n by simp
    moreover have "dr_stage r = fst (dr_class_probabilities r ! k)"
      by (simp only: nth[OF r(1)] r(3) fst_conv)
    moreover have "dr_stage_probability r = snd (dr_class_probabilities r ! k)"
      by (simp only: nth[OF r(1)] r(4) snd_conv)
    moreover have "\<forall>m<length (dr_class_probabilities r).
          snd (dr_class_probabilities r ! m) \<le> dr_stage_probability r"
      using mx(1) by (simp only: n len r(4)) (simp add: nth)
    moreover have "\<forall>m<k. snd (dr_class_probabilities r ! m) < dr_stage_probability r"
    proof (intro allI impI)
      fix m assume "m < k"
      with r(1) have "m < 5" by simp
      from nth[OF this] mx(2) \<open>m < k\<close>
      show "snd (dr_class_probabilities r ! m) < dr_stage_probability r"
        by (simp only: r(4) snd_conv)
    qed
    ultimately show ?thesis by blast
  qed
  from 1 2 show ?thesis by blast
qed

theorem predicted_stage_first_max_witness:
  "valid_ClinicalData example_patient \<and>
   float_representable (diabetes_duration example_patient) \<and>
   (\<exists>r k. demo_analyze example_env example_patient = Inr r \<and>
     map fst (dr_class_probabilities r) = dr_classes \<and>
     k < length (dr_class_probabilities r) \<and>
     dr_stage r = fst (dr_class_probabilities r ! k) \<and>
     dr_stage_probability r = snd (dr_class_probabilities r ! k) \<and>
     (\<forall>m<length (dr_class_probabilities r).
        snd (dr_class_probabilities r ! m) \<le> dr_stage_probability r) \<and>
     (\<forall>m<k. snd (dr_class_probabilities r ! m) < dr_stage_probability r))"
proof -
  have v: "valid_ClinicalData example_patient"
    by (simp add: valid_ClinicalData_def example_patient_def)
  have rep: "float_representable (diabetes_duration example_patient)"
    by (rule float_representable_example)
  note t = predicted_stage_first_max[OF v, of example_env]
  from t rep obtain r where ret: "demo_analyze example_env example_patient = Inr r"
    by blast
  from t ret v rep show ?thesis by blast
qed

section \<open>Recommendations and follow-up\<close>

lemma tier_messages_distinct:
  "msg_urgent \<noteq> msg_follow_up" "msg_urgent \<noteq> msg_continue" "msg_follow_up \<noteq> msg_continue"
  by (simp_all add: msg_urgent_def msg_follow_up_def msg_continue_def)

lemma rule_messages_not_tier:
  "msg_glycemic \<noteq> msg_urgent" "msg_glycemic \<noteq> msg_follow_up" "msg_glycemic \<noteq> msg_continue"
  "msg_blood_pressure \<noteq> msg_urgent" "msg_blood_pressure \<noteq> msg_follow_up"
  "msg_blood_pressure \<noteq> msg_continue"
  "msg_weight \<noteq> msg_urgent" "msg_weight \<noteq> msg_follow_up" "msg_weight \<noteq> msg_continue"
  "msg_smoking \<noteq> msg_urgent" "msg_smoking \<noteq> msg_follow_up" "msg_smoking \<noteq> msg_continue"
  by (simp_all add: msg_urgent_def msg_follow_up_def msg_continue_def
      msg_glycemic_def msg_blood_pressure_def msg_weight_def msg_smoking_def)

lemma build_recommendations_append:
  "build_recommendations cd rf =
     (if hba1c cd > 7 then [msg_glycemic] else []) @
     (if blood_pressure_systolic cd > 130 then [msg_blood_pressure] else []) @
     (if bmi cd > 25 then [msg_weight] else []) @
     (if smoking_status cd = ''current'' then [msg_smoking] else []) @
     [if rf > 0.7 then msg_urgent else if rf > 0.4 then msg_follow_up else msg_continue]"
  by (simp add: build_recommendations_def Let_def)

lemma build_recommendations_one_tier:
  "length (filter (\<lambda>m. m \<in> {msg_urgent, msg_follow_up, msg_continue})
            (build_recommendations cd rf)) = 1"
  by (simp add: build_recommendations_append rule_messages_not_tier)

text \<open>
  Claim C7. For every valid input \<open>demo_analyze\<close> returns a response whenever
  \<open>diabetes_duration\<close> converts to a float, and in every response it returns the
  recommendations are, in this order, at most one message for each of the four threshold
  rules (HbA1c above 7.0, systolic pressure above 130, BMI above 25, smoking status
  "current"), followed by exactly one of the three distinct risk-tier messages (urgent
  referral above 0.7, else follow-up above 0.4, else continue); the list holds exactly
  one tier message.
\<close>

theorem recommendations_structure:
  assumes "valid_ClinicalData cd"
  shows "(float_representable (diabetes_duration cd) \<longrightarrow> (\<exists>r. demo_analyze env cd = Inr r)) \<and>
   (\<forall>r. demo_analyze env cd = Inr r \<longrightarrow>
     recommendations r =
       (if hba1c cd > 7 then [msg_glycemic] else []) @
       (if blood_pressure_systolic cd > 130 then [msg_blood_pressure] else []) @
       (if bmi cd > 25 then [msg_weight] else []) @
       (if smoking_status cd = ''current'' then [msg_smoking] else []) @
       [if risk_factor cd > 0.7 then msg_urgent
        else if risk_factor cd > 0.4 then msg_follow_up else msg_continue] \<and>
     length (filter (\<lambda>m. m \<in> {msg_urgent, msg_follow_up, msg_continue})
               (recommendations r)) = 1) \<and>
   distinct [msg_urgent, msg_follow_up, msg_continue]"
proof -
  have 1: "float_representable (diabetes_duration cd) \<longrightarrow> (\<exists>r. demo_analyze env cd = Inr r)"
    using demo_analyze_returns by blast
  have 2: "recommendations r =
       (if hba1c cd > 7 then [msg_glycemic] else []) @
       (if blood_pressure_systolic cd > 130 then [msg_blood_pressure] else []) @
       (if bmi cd > 25 then [msg_weight] else []) @
       (if smoking_status cd = ''current'' then [msg_smoking] else []) @
       [if risk_factor cd > 0.7 then msg_urgent
        else if risk_factor cd > 0.4 then msg_follow_up else msg_continue] \<and>
     length (filter (\<lambda>m. m \<in> {msg_urgent, msg_follow_up, msg_continue})
               (recommendations r)) = 1"
    if ret: "demo_analyze env cd = Inr r" for r
  proof -
    from demo_analyze_fields[OF ret] have
      r: "recommendations r = build_recommendations cd (risk_factor cd)"
      by blast
    have a: "recommendations r =
         (if hba1c cd > 7 then [msg_glycemic] else []) @
         (if blood_pressure_systolic cd > 130 then [msg_blood_pressure] else []) @
         (if bmi cd > 25 then [msg_weight] else []) @
         (if smoking_status cd = ''current'' then [msg_smoking] else []) @
         [if risk_factor cd > 0.7 then msg_urgent
          else if risk_factor cd > 0.4 then msg_follow_up else msg_continue]"
      unfolding r by (rule build_recommendations_append)
    have b: "length (filter (\<lambda>m. m \<in> {msg_urgent, msg_follow_up, msg_continue})
                 (recommendations r)) = 1"
      unfolding r by (rule build_recommendations_one_tier)
    from a b show ?thesis by blast
  qed
  have 3: "distinct [msg_urgent, msg_follow_up, msg_continue]"
    using tier_messages_distinct by simp
  from 1 2 3 show ?thesis by blast
qed

theorem recommendations_structure_witness:
  "valid_ClinicalData healthy_patient \<and>
   float_representable (diabetes_duration healthy_patient) \<and>
   (\<exists>r. demo_analyze example_env healthy_patient = Inr r \<and>
        recommendations r = [msg_continue] \<and>
        length (filter (\<lambda>m. m \<in> {msg_urgent, msg_follow_up, msg_continue})
                  (recommendations r)) = 1)"
proof -
  have v: "valid_ClinicalData healthy_patient"
    by (simp add: valid_ClinicalData_def healthy_patient_def)
  have rep: "float_representable (diabetes_duration healthy_patient)"
    by (rule float_representable_example)
  have c: "\<not> hba1c healthy_patient > 7" "\<not> blood_pressure_systolic healthy_patient > 130"
    "\<not> bmi healthy_patient > 25" "smoking_status healthy_patient \<noteq> ''current''"
    "\<not> risk_factor healthy_patient > 0.7" "\<not> risk_factor healthy_patient > 0.4"
    by (simp_all add: healthy_patient_def risk_factor_def)
  note t = recommendations_structure[OF v, of example_env]
  from t rep obtain r where ret: "demo_analyze example_env healthy_patient = Inr r"
    by blast
  from t ret have
    r: "recommendations r =
       (if hba1c healthy_patient > 7 then [msg_glycemic] else []) @
       (if blood_pressure_systolic healthy_patient > 130 then [msg_blood_pressure] else []) @
       (if bmi healthy_patient > 25 then [msg_weight] else []) @
       (if smoking_status healthy_patient = ''current'' then [msg_smoking] else []) @
       [if risk_factor healthy_patient > 0.7 then msg_urgent
        else if risk_factor healthy_patient > 0.4 then msg_follow_up else msg_continue]"
       "length (filter (\<lambda>m. m \<in> {msg_urgent, msg_follow_up, msg_continue})
               (recommendations r)) = 1"
    by blast+
  from r(1) c have "recommendations r = [msg_continue]" by simp
  with v rep ret r(2) show ?thesis by blast
qed

text \<open>
  Claim C8. For every valid input \<open>demo_analyze\<close> returns a response whenever
  \<open>diabetes_duration\<close> converts to a float, and in every response it returns
  \<open>follow_up_months\<close> is 1 if the risk factor exceeds 0.7, else 3 if it exceeds 0.4, else
  6, so it is one of 1, 3, 6; and of the responses to two valid inputs the one for the
  larger risk factor never has the larger interval.
\<close>

theorem follow_up_monotone:
  assumes "valid_ClinicalData a" and "valid_ClinicalData b"
  shows "(float_representable (diabetes_duration a) \<longrightarrow> (\<exists>ra. demo_analyze env_a a = Inr ra)) \<and>
   (float_representable (diabetes_duration b) \<longrightarrow> (\<exists>rb. demo_analyze env_b b = Inr rb)) \<and>
   (\<forall>ra. demo_analyze env_a a = Inr ra \<longrightarrow>
      follow_up_months ra =
        (if risk_factor a > 0.7 then 1 else if risk_factor a > 0.4 then 3 else 6) \<and>
      follow_up_months ra \<in> {1, 3, 6} \<and>
      (\<forall>rb. demo_analyze env_b b = Inr rb \<longrightarrow> risk_factor a \<le> risk_factor b \<longrightarrow>
         follow_up_months rb \<le> follow_up_months ra))"
proof -
  have 1: "float_representable (diabetes_duration a) \<longrightarrow> (\<exists>ra. demo_analyze env_a a = Inr ra)"
    "float_representable (diabetes_duration b) \<longrightarrow> (\<exists>rb. demo_analyze env_b b = Inr rb)"
    using demo_analyze_returns by blast+
  have 2: "follow_up_months ra =
        (if risk_factor a > 0.7 then 1 else if risk_factor a > 0.4 then 3 else 6) \<and>
      follow_up_months ra \<in> {1, 3, 6} \<and>
      (\<forall>rb. demo_analyze env_b b = Inr rb \<longrightarrow> risk_factor a \<le> risk_factor b \<longrightarrow>
         follow_up_months rb \<le> follow_up_months ra)"
    if reta: "demo_analyze env_a a = Inr ra" for ra
  proof -
    from demo_analyze_fields[OF reta] have
      ra: "follow_up_months ra = follow_up (risk_factor a)" by blast
    have x: "follow_up_months ra =
         (if risk_factor a > 0.7 then 1 else if risk_factor a > 0.4 then 3 else 6)"
      by (simp add: ra follow_up_def)
    have y: "follow_up_months ra \<in> {1, 3, 6}"
      by (simp add: ra follow_up_def)
    have z: "follow_up_months rb \<le> follow_up_months ra"
      if retb: "demo_analyze env_b b = Inr rb" and le: "risk_factor a \<le> risk_factor b" for rb
    proof -
      from demo_analyze_fields[OF retb] have
        rb: "follow_up_months rb = follow_up (risk_factor b)" by blast
      from le show ?thesis by (auto simp: ra rb follow_up_def)
    qed
    from x y z show ?thesis by blast
  qed
  from 1 2 show ?thesis by blast
qed

theorem follow_up_monotone_witness:
  "valid_ClinicalData healthy_patient \<and> valid_ClinicalData example_patient \<and>
   float_representable (diabetes_duration healthy_patient) \<and>
   float_representable (diabetes_duration example_patient) \<and>
   risk_factor healthy_patient \<le> risk_factor example_patient \<and>
   (\<exists>ra rb. demo_analyze example_env healthy_patient = Inr ra \<and>
      demo_analyze example_env example_patient = Inr rb \<and>
      follow_up_months ra = 6 \<and> follow_up_months rb \<le> follow_up_months ra)"
proof -
  have v: "valid_ClinicalData healthy_patient" "valid_ClinicalData example_patient"
    by (simp_all add: valid_ClinicalData_def healthy_patient_def example_patient_def)
  have rep: "float_representable (diabetes_duration healthy_patient)"
    "float_representable (diabetes_duration example_patient)"
    by (rule float_representable_example)+
  have rf: "risk_factor healthy_patient = 0.275" "risk_factor example_patient = 0.85"
    by (simp_all add: risk_factor_def healthy_patient_def example_patient_def)
  have le: "risk_factor healthy_patient \<le> risk_factor example_patient"
    by (simp add: rf)
  note t = follow_up_monotone[OF v, of example_env example_env]
  from t rep obtain ra rb where
    ret: "demo_analyze example_env healthy_patient = Inr ra"
         "demo_analyze example_env example_patient = Inr rb"
    by blast
  from t ret(1) have
    a: "follow_up_months ra =
          (if risk_factor healthy_patient > 0.7 then 1
           else if risk_factor healthy_patient > 0.4 then 3 else 6)"
    by blast
  from t ret le have b: "follow_up_months rb \<le> follow_up_months ra" by blast
  have "follow_up_months ra = 6" using a by (simp add: rf)
  with v rep le ret b show ?thesis by blast
qed

section \<open>Error handling\<close>

text \<open>
  Claim C9. \<open>demo_analyze\<close> fails exactly when the body of its \<open>try\<close> block raises, and
  then with status code 500 and the text of the exception as its detail; otherwise it
  returns the response the body built. There is no other outcome. The body raises
  exactly when \<open>diabetes_duration\<close> does not convert to a float, and the failure is then
  status 500 with detail "int too large to convert to float".
\<close>

theorem demo_analyze_error_outcome:
  "(\<forall>e. demo_analyze_body env cd = Inl e \<longrightarrow>
        demo_analyze env cd = Inl \<lparr> status_code = 500, detail = str_exception e \<rparr>) \<and>
   (\<forall>r. demo_analyze_body env cd = Inr r \<longrightarrow> demo_analyze env cd = Inr r) \<and>
   (\<forall>h. demo_analyze env cd = Inl h \<longrightarrow>
        (\<exists>e. demo_analyze_body env cd = Inl e \<and>
             h = \<lparr> status_code = 500, detail = str_exception e \<rparr>)) \<and>
   (\<not> float_representable (diabetes_duration cd) \<longrightarrow>
        demo_analyze_body env cd = Inl OverflowError \<and>
        demo_analyze env cd =
          Inl \<lparr> status_code = 500, detail = ''int too large to convert to float'' \<rparr>) \<and>
   (float_representable (diabetes_duration cd) \<longrightarrow>
        (\<exists>r. demo_analyze_body env cd = Inr r \<and> demo_analyze env cd = Inr r))"
proof -
  have 1: "\<forall>e. demo_analyze_body env cd = Inl e \<longrightarrow>
        demo_analyze env cd = Inl \<lparr> status_code = 500, detail = str_exception e \<rparr>"
    by (simp add: demo_analyze_def)
  have 2: "\<forall>r. demo_analyze_body env cd = Inr r \<longrightarrow> demo_analyze env cd = Inr r"
    by (simp add: demo_analyze_def)
  have 3: "\<forall>h. demo_analyze env cd = Inl h \<longrightarrow>
        (\<exists>e. demo_analyze_body env cd = Inl e \<and>
             h = \<lparr> status_code = 500, detail = str_exception e \<rparr>)"
    by (cases "demo_analyze_body env cd") (auto simp: demo_analyze_def)
  have 4: "\<not> float_representable (diabetes_duration cd) \<longrightarrow>
        demo_analyze_body env cd = Inl OverflowError \<and>
        demo_analyze env cd =
          Inl \<lparr> status_code = 500, detail = ''int too large to convert to float'' \<rparr>"
    using demo_analyze_body_overflow[of cd env] demo_analyze_overflow[of cd env] by blast
  have 5: "float_representable (diabetes_duration cd) \<longrightarrow>
        (\<exists>r. demo_analyze_body env cd = Inr r \<and> demo_analyze env cd = Inr r)"
    using demo_analyze_body_fields[of cd env] 2 by blast
  from 1 2 3 4 5 show ?thesis by blast
qed

theorem demo_analyze_error_outcome_witness:
  "valid_ClinicalData overflow_patient \<and>
   \<not> float_representable (diabetes_duration overflow_patient) \<and>
   demo_analyze_body example_env overflow_patient = Inl OverflowError \<and>
   demo_analyze example_env overflow_patient =
     Inl \<lparr> status_code = 500, detail = str_exception OverflowError \<rparr> \<and>
   detail (projl (demo_analyze example_env overflow_patient)) =
     ''int too large to convert to float'' \<and>
   valid_ClinicalData example_patient \<and>
   float_representable (diabetes_duration example_patient) \<and>
   (\<exists>r. demo_analyze_body example_env example_patient = Inr r \<and>
        demo_analyze example_env example_patient = Inr r)"
proof -
  have v: "valid_ClinicalData overflow_patient" "valid_ClinicalData example_patient"
    by (simp_all add: valid_ClinicalData_def overflow_patient_def example_patient_def)
  have rep: "\<not> float_representable (diabetes_duration overflow_patient)"
    "float_representable (diabetes_duration example_patient)"
    by (rule float_representable_example)+
  note o = demo_analyze_error_outcome[of example_env overflow_patient]
  note x = demo_analyze_error_outcome[of example_env example_patient]
  from o rep(1) have b: "demo_analyze_body example_env overflow_patient = Inl OverflowError"
    by blast
  from o b have d: "demo_analyze example_env overflow_patient =
      Inl \<lparr> status_code = 500, detail = str_exception OverflowError \<rparr>"
    by blast
  have e: "detail (projl (demo_analyze example_env overflow_patient)) =
     ''int too large to convert to float''"
    by (simp add: d)
  from x rep(2) have "\<exists>r. demo_analyze_body example_env example_patient = Inr r \<and>
        demo_analyze example_env example_patient = Inr r"
    by blast
  with v rep b d e show ?thesis by blast
qed

end
